theory Spec2Isabelle
  imports Main "HOL-Library.AList" "HOL-Library.Sublist"
begin

section \<open>Python strings\<close>

text \<open>
  A Python \<open>str\<close> is a sequence of Unicode code points, and \<open>len\<close> counts code points.
  A string is therefore a list of code points, each a natural number. \<open>lit\<close> reads an
  ASCII literal of the source as such a list.
\<close>

type_synonym pstr = "nat list"

definition lit :: "string \<Rightarrow> pstr" where
  "lit s = map of_char s"

definition in_ranges :: "(nat \<times> nat) list \<Rightarrow> nat \<Rightarrow> bool" where
  "in_ranges rs c = list_ex (\<lambda>r. fst r \<le> c \<and> c \<le> snd r) rs"

text \<open>
  \<open>str.isdigit\<close>: true when the string has at least one character and every character
  has the Unicode property Numeric_Type=Digit or Numeric_Type=Decimal. The table is the
  one of CPython 3.11 (Unicode 14.0.0), as inclusive ranges of code points.
\<close>

definition digit_ranges :: "(nat \<times> nat) list" where
  "digit_ranges =
    [(48, 57), (178, 179), (185, 185), (1632, 1641), (1776, 1785), (1984, 1993),
     (2406, 2415), (2534, 2543), (2662, 2671), (2790, 2799), (2918, 2927), (3046, 3055),
     (3174, 3183), (3302, 3311), (3430, 3439), (3558, 3567), (3664, 3673), (3792, 3801),
     (3872, 3881), (4160, 4169), (4240, 4249), (4969, 4977), (6112, 6121), (6160, 6169),
     (6470, 6479), (6608, 6618), (6784, 6793), (6800, 6809), (6992, 7001), (7088, 7097),
     (7232, 7241), (7248, 7257), (8304, 8304), (8308, 8313), (8320, 8329), (9312, 9320),
     (9332, 9340), (9352, 9360), (9450, 9450), (9461, 9469), (9471, 9471), (10102, 10110),
     (10112, 10120), (10122, 10130), (42528, 42537), (43216, 43225), (43264, 43273),
     (43472, 43481), (43504, 43513), (43600, 43609), (44016, 44025), (65296, 65305),
     (66720, 66729), (68160, 68163), (68912, 68921), (69216, 69224), (69714, 69722),
     (69734, 69743), (69872, 69881), (69942, 69951), (70096, 70105), (70384, 70393),
     (70736, 70745), (70864, 70873), (71248, 71257), (71360, 71369), (71472, 71481),
     (71904, 71913), (72016, 72025), (72784, 72793), (73040, 73049), (73120, 73129),
     (92768, 92777), (92864, 92873), (93008, 93017), (120782, 120831), (123200, 123209),
     (123632, 123641), (125264, 125273), (127232, 127242), (130032, 130041)]"

definition isdigit_char :: "nat \<Rightarrow> bool" where
  "isdigit_char c = in_ranges digit_ranges c"

definition isdigit :: "pstr \<Rightarrow> bool" where
  "isdigit s = (s \<noteq> [] \<and> list_all isdigit_char s)"

text \<open>
  \<open>str.strip()\<close> without an argument removes leading and trailing whitespace, the
  characters for which \<open>str.isspace\<close> holds (same version of the tables).
\<close>

definition space_ranges :: "(nat \<times> nat) list" where
  "space_ranges =
    [(9, 13), (28, 32), (133, 133), (160, 160), (5760, 5760), (8192, 8202),
     (8232, 8233), (8239, 8239), (8287, 8287), (12288, 12288)]"

definition isspace_char :: "nat \<Rightarrow> bool" where
  "isspace_char c = in_ranges space_ranges c"

definition strip :: "pstr \<Rightarrow> pstr" where
  "strip s = rev (dropWhile isspace_char (rev (dropWhile isspace_char s)))"

text \<open>\<open>sep.join(xs)\<close>.\<close>

fun join :: "pstr \<Rightarrow> pstr list \<Rightarrow> pstr" where
  "join sep [] = []"
| "join sep [x] = x"
| "join sep (x # y # ys) = x @ sep @ join sep (y # ys)"


section \<open>Exceptions and the decorator\<close>

text \<open>
  The exceptions the handlers' bodies raise. \<open>input_error\<close> wraps a handler: the value
  the body returns is passed on, and each of the three exceptions becomes its fixed
  message. A handler takes the argument list and the address book and gives back its
  outcome together with the address book as the call leaves it.
\<close>

datatype exn = KeyError | ValueError | IndexError

fun translate_exn :: "exn + pstr \<Rightarrow> pstr" where
  "translate_exn (Inr r) = r"
| "translate_exn (Inl KeyError) = lit ''Contact not found.''"
| "translate_exn (Inl ValueError) = lit ''Invalid input format.''"
| "translate_exn (Inl IndexError) = lit ''Not enough arguments.''"

definition input_error :: "('a \<Rightarrow> 'b \<Rightarrow> (exn + pstr) \<times> 'b) \<Rightarrow> 'a \<Rightarrow> 'b \<Rightarrow> pstr \<times> 'b" where
  "input_error func args book = (case func args book of (r, book') \<Rightarrow> (translate_exn r, book'))"


section \<open>Fields\<close>

text \<open>
  \<open>Name\<close> and \<open>Phone\<close> are the two subclasses of \<open>Field\<close>; each holds the one attribute
  \<open>value\<close>. Their constructors validate and raise \<open>ValueError\<close>.
\<close>

datatype Name = Name (Name_value: pstr)

datatype Phone = Phone (Phone_value: pstr)

definition Name_init :: "pstr \<Rightarrow> exn + Name" where
  "Name_init nm = (if strip nm = [] then Inl ValueError else Inr (Name nm))"

definition Phone_init :: "pstr \<Rightarrow> exn + Phone" where
  "Phone_init number =
     (if \<not> isdigit number \<or> length number \<noteq> 10 then Inl ValueError else Inr (Phone number))"


section \<open>Record\<close>

datatype Record = Record (Record_name: Name) (Record_phones: "Phone list")

definition Record_init :: "pstr \<Rightarrow> exn + Record" where
  "Record_init nm = (case Name_init nm of Inl e \<Rightarrow> Inl e | Inr n \<Rightarrow> Inr (Record n []))"

definition add_phone :: "Record \<Rightarrow> pstr \<Rightarrow> exn + Record" where
  "add_phone r phone_number =
     (case Phone_init phone_number of
        Inl e \<Rightarrow> Inl e
      | Inr p \<Rightarrow> Inr (Record (Record_name r) (Record_phones r @ [p])))"

definition find_phone :: "Record \<Rightarrow> pstr \<Rightarrow> Phone option" where
  "find_phone r phone_number = List.find (\<lambda>p. Phone_value p = phone_number) (Record_phones r)"

definition Record_str :: "Record \<Rightarrow> pstr" where
  "Record_str r =
     lit ''Contact name: '' @ Name_value (Record_name r) @ lit '', phones: ''
       @ join (lit ''; '') (map Phone_value (Record_phones r))"


section \<open>AddressBook\<close>

text \<open>
  \<open>records\<close> is a Python dict from the name string to the record. A dict keeps its
  keys in insertion order, and \<open>__str__\<close> enumerates it, so it is an association list:
  assigning to a key that is present replaces the value where it stands, assigning to a
  new key appends (\<open>AList.update\<close>), and \<open>del\<close> removes the entry (\<open>AList.delete\<close>).
  The keys of a dict are pairwise different: \<open>dict_ok\<close>.
\<close>

datatype AddressBook = AddressBook (records: "(pstr \<times> Record) list")

definition dict_ok :: "AddressBook \<Rightarrow> bool" where
  "dict_ok book = distinct (map fst (records book))"

definition AddressBook_init :: AddressBook where
  "AddressBook_init = AddressBook []"

definition add_record :: "AddressBook \<Rightarrow> Record \<Rightarrow> AddressBook" where
  "add_record book r = AddressBook (AList.update (Name_value (Record_name r)) r (records book))"

definition AddressBook_find :: "AddressBook \<Rightarrow> pstr \<Rightarrow> Record option" where
  "AddressBook_find book nm = map_of (records book) nm"

definition AddressBook_delete :: "AddressBook \<Rightarrow> pstr \<Rightarrow> AddressBook" where
  "AddressBook_delete book nm =
     (if map_of (records book) nm \<noteq> None then AddressBook (AList.delete nm (records book))
      else book)"

definition AddressBook_str :: "AddressBook \<Rightarrow> pstr" where
  "AddressBook_str book = join (lit [CHR 0x0A]) (map (\<lambda>kv. Record_str (snd kv)) (records book))"

text \<open>The number of entries of the store and the entries filed under one name.\<close>

definition store_size :: "AddressBook \<Rightarrow> nat" where
  "store_size book = length (records book)"

definition entries_under :: "AddressBook \<Rightarrow> pstr \<Rightarrow> (pstr \<times> Record) list" where
  "entries_under book nm = filter (\<lambda>kv. fst kv = nm) (records book)"


section \<open>Command handlers\<close>

text \<open>
  \<open>name, phone = args\<close> unpacks a list of exactly two elements; for any other length
  Python raises \<open>ValueError\<close> (not enough, or too many, values to unpack). The address
  book is changed by \<open>add_record\<close> only, the last statement before the return.
\<close>

definition add_contact_body :: "pstr list \<Rightarrow> AddressBook \<Rightarrow> (exn + pstr) \<times> AddressBook" where
  "add_contact_body args book =
     (case args of
        [nm, phone] \<Rightarrow>
          (case Record_init nm of
             Inl e \<Rightarrow> (Inl e, book)
           | Inr r \<Rightarrow>
               (case add_phone r phone of
                  Inl e \<Rightarrow> (Inl e, book)
                | Inr r' \<Rightarrow>
                    (Inr (lit ''Contact '' @ nm @ lit '' added.''), add_record book r')))
      | _ \<Rightarrow> (Inl ValueError, book))"

definition add_contact :: "pstr list \<Rightarrow> AddressBook \<Rightarrow> pstr \<times> AddressBook" where
  "add_contact = input_error add_contact_body"

text \<open>
  \<open>args[0]\<close> raises \<open>IndexError\<close> on the empty list. A \<open>Record\<close> defines neither
  \<open>__bool__\<close> nor \<open>__len__\<close>, so \<open>if record\<close> is the test against \<open>None\<close>.
\<close>

definition get_phone_body :: "pstr list \<Rightarrow> AddressBook \<Rightarrow> (exn + pstr) \<times> AddressBook" where
  "get_phone_body args book =
     (case args of
        [] \<Rightarrow> (Inl IndexError, book)
      | nm # _ \<Rightarrow>
          (case AddressBook_find book nm of
             Some r \<Rightarrow> (Inr (Record_str r), book)
           | None \<Rightarrow> (Inr (lit ''Contact not found.''), book)))"

definition get_phone :: "pstr list \<Rightarrow> AddressBook \<Rightarrow> pstr \<times> AddressBook" where
  "get_phone = input_error get_phone_body"


section \<open>The command loop\<close>

text \<open>
  \<open>str.lower()\<close> on a string of ASCII characters maps \<open>A\<close>..\<open>Z\<close> to \<open>a\<close>..\<open>z\<close> and leaves
  the rest alone. On other strings it is the Unicode case mapping, which the program does
  not contain: it is the parameter \<open>ulower\<close>.
\<close>

definition ascii_lower :: "nat \<Rightarrow> nat" where
  "ascii_lower c = (if 65 \<le> c \<and> c \<le> 90 then c + 32 else c)"

definition lower :: "(pstr \<Rightarrow> pstr) \<Rightarrow> pstr \<Rightarrow> pstr" where
  "lower ulower s = (if list_all (\<lambda>c. c < 128) s then map ascii_lower s else ulower s)"

text \<open>\<open>s.startswith(p)\<close> and \<open>s.split(' ')\<close> (every single space separates).\<close>

definition startswith :: "pstr \<Rightarrow> pstr \<Rightarrow> bool" where
  "startswith s p = (take (length p) s = p)"

fun split_space :: "pstr \<Rightarrow> pstr list" where
  "split_space [] = [[]]"
| "split_space (c # cs) =
     (if c = 32 then [] # split_space cs
      else (case split_space cs of [] \<Rightarrow> [[c]] | w # ws \<Rightarrow> (c # w) # ws))"

text \<open>
  One turn of the \<open>while True\<close> loop of \<open>main\<close>, on the line that \<open>input\<close> returned: the
  lines printed, the address book afterwards, and whether the loop goes on (\<open>False\<close>
  after \<open>break\<close>).
\<close>

definition main_step :: "(pstr \<Rightarrow> pstr) \<Rightarrow> pstr \<Rightarrow> AddressBook \<Rightarrow> pstr list \<times> AddressBook \<times> bool" where
  "main_step ulower line book =
     (let com = lower ulower line in
      if com = lit ''hello'' then ([lit ''How can I help you?''], book, True)
      else if startswith com (lit ''add'') then
        (let parts = split_space com in
         if length parts < 3 then ([lit ''Invalid format. Use: add [name] [number]''], book, True)
         else (case add_contact [parts ! 1, parts ! 2] book of
                 (msg, book') \<Rightarrow> ([msg], book', True)))
      else if startswith com (lit ''phone'') then
        (let parts = split_space com in
         if length parts < 2 then ([lit ''Invalid format. Use: phone [name]''], book, True)
         else (case get_phone [parts ! 1] book of
                 (msg, book') \<Rightarrow> ([msg], book', True)))
      else if com = lit ''all'' then
        (if records book \<noteq> [] then ([lit ''Saved contacts:'', AddressBook_str book], book, True)
         else ([lit ''No contacts saved yet.''], book, True))
      else if com = lit ''exit'' then ([lit ''Good bye!''], book, False)
      else ([lit ''Invalid command. Try again.e''], book, True))"

text \<open>
  The loop over the lines of standard input, giving every line printed. When the input
  ends before \<open>exit\<close>, \<open>input\<close> raises \<open>EOFError\<close> and the program stops there.
\<close>

fun main_loop :: "(pstr \<Rightarrow> pstr) \<Rightarrow> pstr list \<Rightarrow> AddressBook \<Rightarrow> pstr list" where
  "main_loop ulower [] book = []"
| "main_loop ulower (line # rest) book =
     (case main_step ulower line book of
        (out, book', continue) \<Rightarrow> out @ (if continue then main_loop ulower rest book' else []))"

definition main :: "(pstr \<Rightarrow> pstr) \<Rightarrow> pstr list \<Rightarrow> pstr list" where
  "main ulower lines = main_loop ulower lines AddressBook_init"


section \<open>The specification's wording\<close>

text \<open>
  The specification describes a phone as a string of exactly ten ASCII digits. This is
  that description, to be compared with what \<open>Phone_init\<close> accepts.
\<close>

definition phone_spec :: "pstr \<Rightarrow> bool" where
  "phone_spec s = (length s = 10 \<and> list_all (\<lambda>c. 48 \<le> c \<and> c \<le> 57) s)"


section \<open>Facts about the string functions\<close>

lemma isdigit_char_ascii: "c < 128 \<Longrightarrow> isdigit_char c = (48 \<le> c \<and> c \<le> 57)"
  by (simp add: isdigit_char_def in_ranges_def digit_ranges_def)

lemma isdigit_char_1633: "isdigit_char 1633"
  by (simp add: isdigit_char_def in_ranges_def digit_ranges_def)

lemma list_all_ascii_digit:
  "list_all (\<lambda>c. c < 128) s \<Longrightarrow>
     list_all isdigit_char s = list_all (\<lambda>c. 48 \<le> c \<and> c \<le> 57) s"
  by (induction s) (simp_all add: isdigit_char_ascii)

lemma isspace_char_32: "isspace_char 32"
  by (simp add: isspace_char_def in_ranges_def space_ranges_def)

lemma isspace_char_letter: "65 \<le> c \<Longrightarrow> c \<le> 122 \<Longrightarrow> \<not> isspace_char c"
  by (simp add: isspace_char_def in_ranges_def space_ranges_def)

lemma all_dropWhile_iff: "(\<forall>x\<in>set (dropWhile P s). P x) = (\<forall>x\<in>set s. P x)"
proof
  assume h: "\<forall>x\<in>set (dropWhile P s). P x"
  have "dropWhile P s = []"
  proof (rule ccontr)
    assume ne: "dropWhile P s \<noteq> []"
    then have "\<not> P (hd (dropWhile P s))" by (rule hd_dropWhile)
    moreover have "hd (dropWhile P s) \<in> set (dropWhile P s)" using ne by simp
    ultimately show False using h by blast
  qed
  then show "\<forall>x\<in>set s. P x" by (simp add: dropWhile_eq_Nil_conv)
next
  assume "\<forall>x\<in>set s. P x"
  then show "\<forall>x\<in>set (dropWhile P s). P x" by (blast dest: set_dropWhileD)
qed

lemma strip_empty_iff: "(strip s = []) = list_all isspace_char s"
  by (simp add: strip_def all_dropWhile_iff list_all_iff)


section \<open>Field validation\<close>

lemma Phone_init_Inr_iff:
  "(Phone_init s = Inr ph) = (ph = Phone s \<and> length s = 10 \<and> list_all isdigit_char s)"
  by (auto simp: Phone_init_def isdigit_def)

lemma Phone_init_Inl_iff:
  "(Phone_init s = Inl e) = (e = ValueError \<and> \<not> (length s = 10 \<and> list_all isdigit_char s))"
  by (cases e) (auto simp: Phone_init_def isdigit_def)

lemma Name_init_Inr_iff: "(Name_init s = Inr n) = (n = Name s \<and> \<not> list_all isspace_char s)"
  by (auto simp: Name_init_def strip_empty_iff)

lemma Name_init_Inl_iff: "(Name_init s = Inl e) = (e = ValueError \<and> list_all isspace_char s)"
  by (cases e) (auto simp: Name_init_def strip_empty_iff)

text \<open>
  Claim C2, as the code has it. \<open>Phone_init\<close> succeeds exactly on the strings of length
  ten whose characters are all digits in the sense of \<open>str.isdigit\<close>, and raises
  \<open>ValueError\<close> on every other string. On a string of ASCII characters this is the
  specification's description: length ten and every character one of \<open>0\<close>..\<open>9\<close>.
  \<open>"12345"\<close> and \<open>"12345abcde"\<close> are rejected and \<open>"0123456789"\<close> is accepted.
\<close>

theorem Phone_init_succeeds_iff:
  "(Phone_init s = Inr (Phone s)) = (length s = 10 \<and> list_all isdigit_char s) \<and>
   (Phone_init s = Inl ValueError) = (\<not> (length s = 10 \<and> list_all isdigit_char s)) \<and>
   (list_all (\<lambda>c. c < 128) s \<longrightarrow> (Phone_init s = Inr (Phone s)) = phone_spec s) \<and>
   Phone_init (lit ''12345'') = Inl ValueError \<and>
   Phone_init (lit ''12345abcde'') = Inl ValueError \<and>
   Phone_init (lit ''0123456789'') = Inr (Phone (lit ''0123456789''))"
proof -
  have a: "(Phone_init s = Inr (Phone s)) = (length s = 10 \<and> list_all isdigit_char s)"
    by (simp add: Phone_init_Inr_iff)
  have b: "(Phone_init s = Inl ValueError) = (\<not> (length s = 10 \<and> list_all isdigit_char s))"
    by (simp add: Phone_init_Inl_iff)
  have c: "list_all (\<lambda>c. c < 128) s \<longrightarrow> (Phone_init s = Inr (Phone s)) = phone_spec s"
    by (auto simp: Phone_init_Inr_iff phone_spec_def list_all_ascii_digit)
  have d: "Phone_init (lit ''12345'') = Inl ValueError"
    by (simp add: Phone_init_Inl_iff lit_def)
  have e: "Phone_init (lit ''12345abcde'') = Inl ValueError"
    by (simp add: Phone_init_Inl_iff lit_def isdigit_char_ascii)
  have f: "Phone_init (lit ''0123456789'') = Inr (Phone (lit ''0123456789''))"
    by (simp add: Phone_init_Inr_iff lit_def isdigit_char_ascii)
  from a b c d e f show ?thesis by blast
qed

theorem Phone_init_succeeds_iff_witness:
  "list_all (\<lambda>c. c < 128) (lit ''5550001111'') \<and> phone_spec (lit ''5550001111'') \<and>
   Phone_init (lit ''5550001111'') = Inr (Phone (lit ''5550001111''))"
  using Phone_init_succeeds_iff [of "lit ''5550001111''"]
  by (simp add: lit_def phone_spec_def)

text \<open>
  Claim C2 as stated fails: the string of ten ARABIC-INDIC DIGIT ONE characters (U+0661)
  has no ASCII character at all, and \<open>Phone_init\<close> accepts it.
\<close>

theorem Phone_init_unicode_digits_counterexample:
  "Phone_init [1633, 1633, 1633, 1633, 1633, 1633, 1633, 1633, 1633, 1633]
     = Inr (Phone [1633, 1633, 1633, 1633, 1633, 1633, 1633, 1633, 1633, 1633]) \<and>
   \<not> phone_spec [1633, 1633, 1633, 1633, 1633, 1633, 1633, 1633, 1633, 1633] \<and>
   \<not> (1633 :: nat) < 128"
  by (simp add: Phone_init_Inr_iff isdigit_char_1633 phone_spec_def)

text \<open>
  Claim C3. \<open>Name_init\<close> raises \<open>ValueError\<close> exactly when the string stripped of
  whitespace is empty, that is when every character of it is whitespace; otherwise it
  succeeds. \<open>""\<close> and \<open>"   "\<close> are rejected, and \<open>"Ann"\<close> is accepted with the value
  \<open>"Ann"\<close>.
\<close>

theorem Name_init_fails_iff:
  "(Name_init s = Inl ValueError) = (strip s = []) \<and>
   (strip s = []) = list_all isspace_char s \<and>
   (strip s \<noteq> [] \<longrightarrow> Name_init s = Inr (Name s)) \<and>
   Name_init [] = Inl ValueError \<and>
   Name_init (lit ''   '') = Inl ValueError \<and>
   Name_init (lit ''Ann'') = Inr (Name (lit ''Ann'')) \<and>
   Name_value (Name (lit ''Ann'')) = lit ''Ann''"
proof -
  have a: "Name_init (lit ''   '') = Inl ValueError"
    by (simp add: Name_init_Inl_iff lit_def isspace_char_32)
  have b: "Name_init (lit ''Ann'') = Inr (Name (lit ''Ann''))"
    by (simp add: Name_init_Inr_iff lit_def isspace_char_letter)
  show ?thesis
    using a b by (simp add: Name_init_def strip_empty_iff)
qed

theorem Name_init_fails_iff_witness:
  "strip (lit ''Bob'') \<noteq> [] \<and> Name_init (lit ''Bob'') = Inr (Name (lit ''Bob''))"
proof -
  have h: "strip (lit ''Bob'') \<noteq> []"
    by (simp add: strip_empty_iff lit_def isspace_char_letter)
  show ?thesis using h Name_init_fails_iff [of "lit ''Bob''"] by blast
qed


section \<open>The address book as a dict\<close>

lemma filter_update_distinct:
  "distinct (map fst al) \<Longrightarrow> filter (\<lambda>kv. fst kv = k) (AList.update k v al) = [(k, v)]"
proof (induction al)
  case Nil
  then show ?case by simp
next
  case (Cons a al)
  show ?case
  proof (cases "fst a = k")
    case True
    with Cons.prems have "k \<notin> fst ` set al" by auto
    then have "filter (\<lambda>kv. fst kv = k) al = []"
      by (auto simp: filter_empty_conv)
    with True show ?thesis by simp
  next
    case False
    with Cons show ?thesis by simp
  qed
qed

lemma find_add_record_same:
  "AddressBook_find (add_record book r) (Name_value (Record_name r)) = Some r"
  by (simp add: AddressBook_find_def add_record_def update_conv')

lemma find_add_record_other:
  "nm \<noteq> Name_value (Record_name r) \<Longrightarrow>
     AddressBook_find (add_record book r) nm = AddressBook_find book nm"
  by (simp add: AddressBook_find_def add_record_def update_conv')

lemma dict_ok_add_record: "dict_ok book \<Longrightarrow> dict_ok (add_record book r)"
  by (simp add: dict_ok_def add_record_def distinct_update)

lemma dict_ok_delete: "dict_ok book \<Longrightarrow> dict_ok (AddressBook_delete book nm)"
  by (simp add: dict_ok_def AddressBook_delete_def distinct_delete)

lemma entries_under_add_record:
  "dict_ok book \<Longrightarrow>
     entries_under (add_record book r) (Name_value (Record_name r)) = [(Name_value (Record_name r), r)]"
  by (simp add: dict_ok_def entries_under_def add_record_def filter_update_distinct)

lemma delete_absent: "map_of al k = None \<Longrightarrow> AList.delete k al = al"
  by (induction al) (auto simp: split: if_splits)

lemma alist_delete_filter: "AList.delete k al = filter (\<lambda>kv. fst kv \<noteq> k) al"
  by (induction al) auto

lemma records_delete:
  "records (AddressBook_delete book nm) = filter (\<lambda>kv. fst kv \<noteq> nm) (records book)"
proof (cases "map_of (records book) nm")
  case None
  then have "AList.delete nm (records book) = records book" by (rule delete_absent)
  with None show ?thesis by (simp add: AddressBook_delete_def alist_delete_filter)
next
  case (Some r)
  then show ?thesis by (simp add: AddressBook_delete_def alist_delete_filter)
qed

lemma length_filter_distinct_key:
  "distinct (map fst al) \<Longrightarrow> map_of al k = Some v \<Longrightarrow>
     Suc (length (filter (\<lambda>kv. fst kv \<noteq> k) al)) = length al"
proof (induction al)
  case Nil
  then show ?case by simp
next
  case (Cons a al)
  show ?case
  proof (cases "fst a = k")
    case True
    with Cons.prems have "k \<notin> fst ` set al" by auto
    then have "filter (\<lambda>kv. fst kv \<noteq> k) al = al"
      by (auto simp: filter_id_conv)
    with True show ?thesis by simp
  next
    case False
    with Cons show ?thesis by simp
  qed
qed


lemma john_not_space: "\<not> list_all isspace_char (lit ''john'')"
  by (simp add: lit_def isspace_char_letter)

lemma digits_1234567890: "length (lit ''1234567890'') = 10 \<and> list_all isdigit_char (lit ''1234567890'')"
  by (simp add: lit_def isdigit_char_ascii)

lemma digits_0987654321: "length (lit ''0987654321'') = 10 \<and> list_all isdigit_char (lit ''0987654321'')"
  by (simp add: lit_def isdigit_char_ascii)

text \<open>
  Claim C8. \<open>AddressBook_delete\<close> on a name that is not a key returns the address book
  as it was. In every case the name is no key afterwards, the lookup of every other name
  is as before, and the entries left are the entries under the other names, in their
  order. When the name was a key, the address book has one entry fewer.
\<close>

theorem AddressBook_delete_frame:
  "(AddressBook_find book nm = None \<longrightarrow> AddressBook_delete book nm = book) \<and>
   AddressBook_find (AddressBook_delete book nm) nm = None \<and>
   (nm' \<noteq> nm \<longrightarrow> AddressBook_find (AddressBook_delete book nm) nm' = AddressBook_find book nm') \<and>
   records (AddressBook_delete book nm) = filter (\<lambda>kv. fst kv \<noteq> nm) (records book) \<and>
   (dict_ok book \<and> AddressBook_find book nm \<noteq> None \<longrightarrow>
      Suc (store_size (AddressBook_delete book nm)) = store_size book)"
proof -
  have a: "AddressBook_find book nm = None \<longrightarrow> AddressBook_delete book nm = book"
    by (simp add: AddressBook_find_def AddressBook_delete_def)
  have b: "AddressBook_find (AddressBook_delete book nm) nm = None"
    by (simp add: AddressBook_find_def AddressBook_delete_def delete_conv')
  have c: "nm' \<noteq> nm \<longrightarrow> AddressBook_find (AddressBook_delete book nm) nm' = AddressBook_find book nm'"
    by (simp add: AddressBook_find_def AddressBook_delete_def delete_conv')
  have d: "dict_ok book \<and> AddressBook_find book nm \<noteq> None \<longrightarrow>
      Suc (store_size (AddressBook_delete book nm)) = store_size book"
    by (auto simp: store_size_def records_delete dict_ok_def AddressBook_find_def
        length_filter_distinct_key)
  from a b c d records_delete [of book nm] show ?thesis by blast
qed


theorem AddressBook_delete_frame_witness:
  "AddressBook_find (AddressBook [(lit ''ann'', Record (Name (lit ''ann'')) [])]) (lit ''bob'') = None \<and>
   AddressBook_delete (AddressBook [(lit ''ann'', Record (Name (lit ''ann'')) [])]) (lit ''bob'')
     = AddressBook [(lit ''ann'', Record (Name (lit ''ann'')) [])] \<and>
   dict_ok (AddressBook [(lit ''ann'', Record (Name (lit ''ann'')) [])]) \<and>
   AddressBook_find (AddressBook [(lit ''ann'', Record (Name (lit ''ann'')) [])]) (lit ''ann'') \<noteq> None \<and>
   Suc (store_size (AddressBook_delete (AddressBook [(lit ''ann'', Record (Name (lit ''ann'')) [])])
     (lit ''ann''))) = store_size (AddressBook [(lit ''ann'', Record (Name (lit ''ann'')) [])])"
proof -
  let ?b = "AddressBook [(lit ''ann'', Record (Name (lit ''ann'')) [])]"
  have ne: "lit ''bob'' \<noteq> lit ''ann''" by (simp add: lit_def)
  have a: "AddressBook_find ?b (lit ''bob'') = None"
    using ne by (simp add: AddressBook_find_def)
  have b: "dict_ok ?b" by (simp add: dict_ok_def)
  have c: "AddressBook_find ?b (lit ''ann'') \<noteq> None"
    by (simp add: AddressBook_find_def)
  show ?thesis
    using a b c AddressBook_delete_frame [of ?b "lit ''bob''"]
      AddressBook_delete_frame [of ?b "lit ''ann''"]
    by blast
qed


section \<open>The handlers\<close>

lemma Record_init_eq:
  "Record_init n =
     (if list_all isspace_char n then Inl ValueError else Inr (Record (Name n) []))"
  by (simp add: Record_init_def Name_init_def strip_empty_iff)

lemma add_phone_eq:
  "add_phone r p =
     (if length p = 10 \<and> list_all isdigit_char p
      then Inr (Record (Record_name r) (Record_phones r @ [Phone p]))
      else Inl ValueError)"
  by (auto simp: add_phone_def Phone_init_def isdigit_def)

lemma add_contact_body_pair:
  "add_contact_body [n, p] book =
     (if \<not> list_all isspace_char n \<and> length p = 10 \<and> list_all isdigit_char p
      then (Inr (lit ''Contact '' @ n @ lit '' added.''),
            add_record book (Record (Name n) [Phone p]))
      else (Inl ValueError, book))"
  by (simp add: add_contact_body_def Record_init_eq add_phone_eq)

lemma add_contact_pair:
  "add_contact [n, p] book =
     (if \<not> list_all isspace_char n \<and> length p = 10 \<and> list_all isdigit_char p
      then (lit ''Contact '' @ n @ lit '' added.'', add_record book (Record (Name n) [Phone p]))
      else (lit ''Invalid input format.'', book))"
  by (simp add: add_contact_def input_error_def add_contact_body_pair)

lemma added_not_invalid: "lit ''Contact '' @ n @ lit '' added.'' \<noteq> lit ''Invalid input format.''"
  by (simp add: lit_def)

lemma added_not_arity: "lit ''Contact '' @ n @ lit '' added.'' \<noteq> lit ''Not enough arguments.''"
  by (simp add: lit_def)

lemma added_not_missing: "lit ''Contact '' @ n @ lit '' added.'' \<noteq> lit ''Contact not found.''"
proof
  assume "lit ''Contact '' @ n @ lit '' added.'' = lit ''Contact not found.''"
  then have "rev (lit ''Contact '' @ n @ lit '' added.'') = rev (lit ''Contact not found.'')"
    by (rule arg_cong)
  then show False by (simp add: lit_def)
qed

lemma add_contact_success_iff:
  "(fst (add_contact [n, p] book) = lit ''Contact '' @ n @ lit '' added.'') =
     (\<not> list_all isspace_char n \<and> length p = 10 \<and> list_all isdigit_char p)"
  using added_not_invalid [of n] by (auto simp: add_contact_pair)

lemma Record_str_single:
  "Record_str (Record (Name n) [Phone p]) = lit ''Contact name: '' @ n @ lit '', phones: '' @ p"
  by (simp add: Record_str_def)


text \<open>
  Claim C1, evaluated on the code. With no argument or one argument the unpacking
  \<open>name, phone = args\<close> raises \<open>ValueError\<close>, and the decorator answers with the message
  of a validation failure, not with the message of the arity error.
\<close>

theorem add_contact_too_few_arguments:
  "add_contact [] book = (lit ''Invalid input format.'', book) \<and>
   add_contact [nm] book = (lit ''Invalid input format.'', book) \<and>
   lit ''Invalid input format.'' \<noteq> lit ''Not enough arguments.''"
  by (simp add: add_contact_def input_error_def add_contact_body_def lit_def)

theorem add_contact_too_few_arguments_witness:
  "add_contact [lit ''john''] AddressBook_init = (lit ''Invalid input format.'', AddressBook_init)"
  using add_contact_too_few_arguments [of AddressBook_init "lit ''john''"] by blast


text \<open>
  Claim C5. When the name is not a key of the address book, \<open>get_phone\<close> returns
  \<open>"Contact not found."\<close> and leaves the address book alone. The body raises nothing
  there: the message is the value it returns.
\<close>

theorem get_phone_unknown_name:
  "AddressBook_find book nm = None \<longrightarrow>
     get_phone (nm # rest) book = (lit ''Contact not found.'', book) \<and>
     get_phone_body (nm # rest) book = (Inr (lit ''Contact not found.''), book)"
  by (simp add: get_phone_def input_error_def get_phone_body_def)

theorem get_phone_unknown_name_witness:
  "AddressBook_find AddressBook_init (lit ''bob'') = None \<and>
   get_phone [lit ''bob''] AddressBook_init = (lit ''Contact not found.'', AddressBook_init)"
proof -
  have h: "AddressBook_find AddressBook_init (lit ''bob'') = None"
    by (simp add: AddressBook_find_def AddressBook_init_def)
  show ?thesis
    using h get_phone_unknown_name [of AddressBook_init "lit ''bob''" "[]"] by blast
qed


text \<open>
  Claim C9. When the name or the phone is rejected by its constructor, \<open>add_contact\<close>
  returns \<open>"Invalid input format."\<close> and the address book is the one it was called with.
  More generally, whenever the string returned for two arguments is one of the three
  error messages, the address book is unchanged.
\<close>

theorem add_contact_failure_keeps_store:
  "(Name_init n = Inl e \<or> Phone_init p = Inl e \<longrightarrow>
      add_contact [n, p] book = (lit ''Invalid input format.'', book)) \<and>
   (fst (add_contact [n, p] book) \<in>
      {lit ''Contact not found.'', lit ''Invalid input format.'', lit ''Not enough arguments.''}
      \<longrightarrow> snd (add_contact [n, p] book) = book)"
proof -
  have a: "Name_init n = Inl e \<or> Phone_init p = Inl e \<longrightarrow>
      add_contact [n, p] book = (lit ''Invalid input format.'', book)"
    by (auto simp: Name_init_Inl_iff Phone_init_Inl_iff add_contact_pair)
  have b: "fst (add_contact [n, p] book) \<in>
      {lit ''Contact not found.'', lit ''Invalid input format.'', lit ''Not enough arguments.''}
      \<longrightarrow> snd (add_contact [n, p] book) = book"
    using added_not_invalid [of n] added_not_arity [of n] added_not_missing [of n]
    by (auto simp: add_contact_pair)
  from a b show ?thesis by blast
qed


theorem add_contact_failure_keeps_store_witness:
  "Phone_init (lit ''123'') = Inl ValueError \<and>
   add_contact [lit ''alice'', lit ''123''] AddressBook_init
     = (lit ''Invalid input format.'', AddressBook_init)"
proof -
  have h: "Phone_init (lit ''123'') = Inl ValueError"
    by (simp add: Phone_init_Inl_iff lit_def)
  show ?thesis
    using h add_contact_failure_keeps_store
      [of "lit ''alice''" ValueError "lit ''123''" AddressBook_init]
    by blast
qed

text \<open>
  Claim C6. For a name and a phone that their constructors accept, \<open>add_contact\<close>
  succeeds, and looking the name up in the address book it leaves finds a record whose
  string form is \<open>"Contact name: <name>, phones: <phone>"\<close>, which contains the phone.
\<close>

theorem add_contact_then_find_renders_phone:
  "Name_init n = Inr nm \<and> Phone_init p = Inr ph \<longrightarrow>
     fst (add_contact [n, p] book) = lit ''Contact '' @ n @ lit '' added.'' \<and>
     (\<exists>r. AddressBook_find (snd (add_contact [n, p] book)) n = Some r \<and>
          Record_str r = lit ''Contact name: '' @ n @ lit '', phones: '' @ p \<and>
          sublist p (Record_str r))"
proof (intro impI)
  assume h: "Name_init n = Inr nm \<and> Phone_init p = Inr ph"
  then have ok: "\<not> list_all isspace_char n \<and> length p = 10 \<and> list_all isdigit_char p"
    by (simp add: Name_init_Inr_iff Phone_init_Inr_iff)
  let ?r = "Record (Name n) [Phone p]"
  have res: "add_contact [n, p] book = (lit ''Contact '' @ n @ lit '' added.'', add_record book ?r)"
    using ok by (simp add: add_contact_pair)
  have f: "AddressBook_find (add_record book ?r) n = Some ?r"
    using find_add_record_same [of book ?r] by simp
  have s: "sublist p (Record_str ?r)"
    by (simp add: Record_str_single sublist_append)
  show "fst (add_contact [n, p] book) = lit ''Contact '' @ n @ lit '' added.'' \<and>
     (\<exists>r. AddressBook_find (snd (add_contact [n, p] book)) n = Some r \<and>
          Record_str r = lit ''Contact name: '' @ n @ lit '', phones: '' @ p \<and>
          sublist p (Record_str r))"
    using res f s Record_str_single [of n p] by auto
qed


theorem add_contact_then_find_renders_phone_witness:
  "Name_init (lit ''john'') = Inr (Name (lit ''john'')) \<and>
   Phone_init (lit ''1234567890'') = Inr (Phone (lit ''1234567890'')) \<and>
   (\<exists>r. AddressBook_find (snd (add_contact [lit ''john'', lit ''1234567890''] AddressBook_init))
          (lit ''john'') = Some r \<and>
        sublist (lit ''1234567890'') (Record_str r))"
proof -
  have n: "Name_init (lit ''john'') = Inr (Name (lit ''john''))"
    using john_not_space by (simp add: Name_init_Inr_iff)
  have p: "Phone_init (lit ''1234567890'') = Inr (Phone (lit ''1234567890''))"
    using digits_1234567890 by (simp add: Phone_init_Inr_iff)
  show ?thesis
    using n p add_contact_then_find_renders_phone
      [of "lit ''john''" "Name (lit ''john'')" "lit ''1234567890''"
          "Phone (lit ''1234567890'')" AddressBook_init]
    by blast
qed

text \<open>
  Claim C4. Two records with the same name, added one after the other, leave one entry
  under that name, holding the second record: an address book that was empty has size 1,
  the lookup of the name gives the second record, and (the keys being those of a dict)
  the entries under the name are that one entry. The same holds for two successful calls
  of \<open>add_contact\<close> with the same name: the lookup gives the record with the second
  phone as its only phone.
\<close>

theorem add_same_name_overwrites:
  "(Name_value (Record_name r1) = nm \<and> Name_value (Record_name r2) = nm \<longrightarrow>
      store_size (add_record (add_record AddressBook_init r1) r2) = 1 \<and>
      AddressBook_find (add_record (add_record book r1) r2) nm = Some r2 \<and>
      (dict_ok book \<longrightarrow>
         entries_under (add_record (add_record book r1) r2) nm = [(nm, r2)])) \<and>
   (fst (add_contact [n, p1] book) = lit ''Contact '' @ n @ lit '' added.'' \<and>
    fst (add_contact [n, p2] (snd (add_contact [n, p1] book)))
      = lit ''Contact '' @ n @ lit '' added.'' \<longrightarrow>
      AddressBook_find (snd (add_contact [n, p2] (snd (add_contact [n, p1] book)))) n
        = Some (Record (Name n) [Phone p2]) \<and>
      (dict_ok book \<longrightarrow>
         entries_under (snd (add_contact [n, p2] (snd (add_contact [n, p1] book)))) n
           = [(n, Record (Name n) [Phone p2])]) \<and>
      (book = AddressBook_init \<longrightarrow>
         store_size (snd (add_contact [n, p2] (snd (add_contact [n, p1] book)))) = 1))"
proof -
  have rec:
    "store_size (add_record (add_record AddressBook_init r1) r2) = 1 \<and>
     AddressBook_find (add_record (add_record book r1) r2) nm = Some r2 \<and>
     (dict_ok book \<longrightarrow> entries_under (add_record (add_record book r1) r2) nm = [(nm, r2)])"
    if h: "Name_value (Record_name r1) = nm \<and> Name_value (Record_name r2) = nm"
    for book r1 r2 nm
  proof -
    have a: "store_size (add_record (add_record AddressBook_init r1) r2) = 1"
      using h by (simp add: store_size_def add_record_def AddressBook_init_def)
    have b: "AddressBook_find (add_record (add_record book r1) r2) nm = Some r2"
      using h find_add_record_same [of "add_record book r1" r2] by simp
    have c: "dict_ok book \<longrightarrow> entries_under (add_record (add_record book r1) r2) nm = [(nm, r2)]"
      using h entries_under_add_record [of "add_record book r1" r2]
        dict_ok_add_record [of book r1]
      by simp
    from a b c show ?thesis by blast
  qed
  have con:
    "AddressBook_find (snd (add_contact [n, p2] (snd (add_contact [n, p1] book)))) n
        = Some (Record (Name n) [Phone p2]) \<and>
      (dict_ok book \<longrightarrow>
         entries_under (snd (add_contact [n, p2] (snd (add_contact [n, p1] book)))) n
           = [(n, Record (Name n) [Phone p2])]) \<and>
      (book = AddressBook_init \<longrightarrow>
         store_size (snd (add_contact [n, p2] (snd (add_contact [n, p1] book)))) = 1)"
    if h: "fst (add_contact [n, p1] book) = lit ''Contact '' @ n @ lit '' added.'' \<and>
           fst (add_contact [n, p2] (snd (add_contact [n, p1] book)))
             = lit ''Contact '' @ n @ lit '' added.''"
  proof -
    let ?r1 = "Record (Name n) [Phone p1]"
    let ?r2 = "Record (Name n) [Phone p2]"
    from h have ok1: "\<not> list_all isspace_char n \<and> length p1 = 10 \<and> list_all isdigit_char p1"
      by (simp add: add_contact_success_iff)
    from h have ok2: "\<not> list_all isspace_char n \<and> length p2 = 10 \<and> list_all isdigit_char p2"
      by (simp add: add_contact_success_iff)
    have s1: "snd (add_contact [n, p1] book) = add_record book ?r1"
      using ok1 by (simp add: add_contact_pair)
    have s2: "snd (add_contact [n, p2] (add_record book ?r1)) = add_record (add_record book ?r1) ?r2"
      using ok2 by (simp add: add_contact_pair)
    have nm: "Name_value (Record_name ?r1) = n \<and> Name_value (Record_name ?r2) = n" by simp
    have fin: "snd (add_contact [n, p2] (snd (add_contact [n, p1] book)))
        = add_record (add_record book ?r1) ?r2"
      by (simp add: s1 s2)
    have sz: "book = AddressBook_init \<longrightarrow>
        store_size (add_record (add_record book ?r1) ?r2) = 1"
      by (simp add: store_size_def add_record_def AddressBook_init_def)
    from rec [OF nm, of book] sz show ?thesis
      unfolding fin by blast
  qed
  from rec [of r1 nm r2 book] con show ?thesis by blast
qed

theorem add_same_name_overwrites_witness:
  "fst (add_contact [lit ''john'', lit ''1234567890''] AddressBook_init)
     = lit ''Contact '' @ lit ''john'' @ lit '' added.'' \<and>
   fst (add_contact [lit ''john'', lit ''0987654321'']
          (snd (add_contact [lit ''john'', lit ''1234567890''] AddressBook_init)))
     = lit ''Contact '' @ lit ''john'' @ lit '' added.'' \<and>
   dict_ok AddressBook_init \<and>
   AddressBook_find
     (snd (add_contact [lit ''john'', lit ''0987654321'']
        (snd (add_contact [lit ''john'', lit ''1234567890''] AddressBook_init)))) (lit ''john'')
     = Some (Record (Name (lit ''john'')) [Phone (lit ''0987654321'')]) \<and>
   store_size
     (snd (add_contact [lit ''john'', lit ''0987654321'']
        (snd (add_contact [lit ''john'', lit ''1234567890''] AddressBook_init)))) = 1"
proof -
  have a: "fst (add_contact [lit ''john'', lit ''1234567890''] AddressBook_init)
     = lit ''Contact '' @ lit ''john'' @ lit '' added.''"
    using john_not_space digits_1234567890 by (simp add: add_contact_success_iff)
  have b: "fst (add_contact [lit ''john'', lit ''0987654321'']
          (snd (add_contact [lit ''john'', lit ''1234567890''] AddressBook_init)))
     = lit ''Contact '' @ lit ''john'' @ lit '' added.''"
    using john_not_space digits_0987654321 by (simp add: add_contact_success_iff)
  have c: "dict_ok AddressBook_init"
    by (simp add: dict_ok_def AddressBook_init_def)
  show ?thesis
    using a b c add_same_name_overwrites
      [of "Record (Name (lit ''john'')) []" "lit ''john''" "Record (Name (lit ''john'')) []"
          AddressBook_init "lit ''john''" "lit ''1234567890''" "lit ''0987654321''"]
    by blast
qed

text \<open>
  Claim C10. A name with at least one character that is not whitespace is stored as it
  was given: \<open>Name_init\<close> and \<open>Record_init\<close> keep the untrimmed string, and the record
  is filed under it. When stripping changes the string, the stripped string is another
  key: adding the record leaves the lookup of the stripped name as it was.
\<close>

theorem Name_init_keeps_untrimmed:
  "\<not> list_all isspace_char raw \<longrightarrow>
     Name_init raw = Inr (Name raw) \<and>
     Record_init raw = Inr (Record (Name raw) []) \<and>
     map fst (records (add_record AddressBook_init (Record (Name raw) ps))) = [raw] \<and>
     AddressBook_find (add_record book (Record (Name raw) ps)) raw = Some (Record (Name raw) ps) \<and>
     (strip raw \<noteq> raw \<longrightarrow>
        AddressBook_find (add_record book (Record (Name raw) ps)) (strip raw)
          = AddressBook_find book (strip raw)) \<and>
     (length p = 10 \<and> list_all isdigit_char p \<longrightarrow>
        map fst (records (snd (add_contact [raw, p] AddressBook_init))) = [raw])"
proof (intro impI)
  assume h: "\<not> list_all isspace_char raw"
  have a: "Name_init raw = Inr (Name raw)" using h by (simp add: Name_init_Inr_iff)
  have b: "Record_init raw = Inr (Record (Name raw) [])" using h by (simp add: Record_init_eq)
  have c: "map fst (records (add_record AddressBook_init (Record (Name raw) ps))) = [raw]"
    by (simp add: add_record_def AddressBook_init_def)
  have d: "AddressBook_find (add_record book (Record (Name raw) ps)) raw = Some (Record (Name raw) ps)"
    using find_add_record_same [of book "Record (Name raw) ps"] by simp
  have e: "strip raw \<noteq> raw \<longrightarrow>
        AddressBook_find (add_record book (Record (Name raw) ps)) (strip raw)
          = AddressBook_find book (strip raw)"
    using find_add_record_other [of "strip raw" "Record (Name raw) ps" book] by simp
  have f: "length p = 10 \<and> list_all isdigit_char p \<longrightarrow>
        map fst (records (snd (add_contact [raw, p] AddressBook_init))) = [raw]"
    using h by (simp add: add_contact_pair add_record_def AddressBook_init_def)
  from a b c d e f show "Name_init raw = Inr (Name raw) \<and>
     Record_init raw = Inr (Record (Name raw) []) \<and>
     map fst (records (add_record AddressBook_init (Record (Name raw) ps))) = [raw] \<and>
     AddressBook_find (add_record book (Record (Name raw) ps)) raw = Some (Record (Name raw) ps) \<and>
     (strip raw \<noteq> raw \<longrightarrow>
        AddressBook_find (add_record book (Record (Name raw) ps)) (strip raw)
          = AddressBook_find book (strip raw)) \<and>
     (length p = 10 \<and> list_all isdigit_char p \<longrightarrow>
        map fst (records (snd (add_contact [raw, p] AddressBook_init))) = [raw])"
    by blast
qed

theorem Name_init_keeps_untrimmed_witness:
  "\<not> list_all isspace_char (lit '' Ann '') \<and>
   strip (lit '' Ann '') = lit ''Ann'' \<and>
   lit ''Ann'' \<noteq> lit '' Ann '' \<and>
   Name_init (lit '' Ann '') = Inr (Name (lit '' Ann '')) \<and>
   map fst (records (snd (add_contact [lit '' Ann '', lit ''1234567890''] AddressBook_init)))
     = [lit '' Ann ''] \<and>
   AddressBook_find (add_record AddressBook_init (Record (Name (lit '' Ann '')) [])) (lit ''Ann'')
     = None"
proof -
  have a: "\<not> list_all isspace_char (lit '' Ann '')"
    by (simp add: lit_def isspace_char_letter)
  have b: "strip (lit '' Ann '') = lit ''Ann''"
    by (simp add: strip_def lit_def isspace_char_32 isspace_char_letter)
  have c: "lit ''Ann'' \<noteq> lit '' Ann ''" by (simp add: lit_def)
  have d: "AddressBook_find AddressBook_init (lit ''Ann'') = None"
    by (simp add: AddressBook_find_def AddressBook_init_def)
  show ?thesis
    using a b c d digits_1234567890 Name_init_keeps_untrimmed
      [of "lit '' Ann ''" "[]" AddressBook_init "lit ''1234567890''"]
    by simp
qed


section \<open>Properties of the command loop\<close>

text \<open>
  Claim C7, as the code has it. The line \<open>phone\<close> splits into one part, and the loop
  itself prints \<open>"Invalid format. Use: phone [name]"\<close> without calling the handler, then
  goes on with the next line. The handler \<open>get_phone\<close>, called with no argument, returns
  \<open>"Not enough arguments."\<close>.
\<close>

theorem main_step_phone_without_name:
  "main_step ulower (lit ''phone'') book
     = ([lit ''Invalid format. Use: phone [name]''], book, True) \<and>
   main_loop ulower (lit ''phone'' # rest) book
     = lit ''Invalid format. Use: phone [name]'' # main_loop ulower rest book \<and>
   get_phone [] book = (lit ''Not enough arguments.'', book)"
proof -
  have com: "lower ulower (lit ''phone'') = lit ''phone''"
    by (simp add: lower_def ascii_lower_def lit_def)
  have sp: "split_space (lit ''phone'') = [lit ''phone'']"
    by (simp add: lit_def)
  have a: "main_step ulower (lit ''phone'') book
     = ([lit ''Invalid format. Use: phone [name]''], book, True)"
    unfolding main_step_def com Let_def sp
    by (simp add: startswith_def lit_def)
  have b: "get_phone [] book = (lit ''Not enough arguments.'', book)"
    by (simp add: get_phone_def input_error_def get_phone_body_def)
  from a b show ?thesis by simp
qed

theorem main_step_phone_without_name_witness:
  "main_loop id [lit ''phone''] AddressBook_init = [lit ''Invalid format. Use: phone [name]'']"
  using main_step_phone_without_name [of id AddressBook_init "[]"] by simp

text \<open>
  Claim C7 as stated fails: what the loop prints for the line \<open>phone\<close> is not
  \<open>"Not enough arguments."\<close>.
\<close>

theorem main_step_phone_counterexample:
  "fst (main_step id (lit ''phone'') AddressBook_init)
     = [lit ''Invalid format. Use: phone [name]''] \<and>
   fst (main_step id (lit ''phone'') AddressBook_init) \<noteq> [lit ''Not enough arguments.'']"
proof -
  have com: "lower id (lit ''phone'') = lit ''phone''"
    by (simp add: lower_def ascii_lower_def lit_def)
  have sp: "split_space (lit ''phone'') = [lit ''phone'']"
    by (simp add: lit_def)
  have a: "main_step id (lit ''phone'') AddressBook_init
     = ([lit ''Invalid format. Use: phone [name]''], AddressBook_init, True)"
    unfolding main_step_def com Let_def sp
    by (simp add: startswith_def lit_def)
  have b: "lit ''Invalid format. Use: phone [name]'' \<noteq> lit ''Not enough arguments.''"
    by (simp add: lit_def)
  from a b show ?thesis by simp
qed

text \<open>The session of the specification, line by line.\<close>

lemma main_session:
  "main ulower [lit ''add john 1234567890'', lit ''phone john'', lit ''all'', lit ''exit'']
     = [lit ''Contact john added.'',
        lit ''Contact name: john, phones: 1234567890'',
        lit ''Saved contacts:'',
        lit ''Contact name: john, phones: 1234567890'',
        lit ''Good bye!'']"
  by (simp add: main_def main_step_def Let_def lower_def ascii_lower_def startswith_def
      lit_def add_contact_pair isspace_char_letter isdigit_char_ascii
      get_phone_def get_phone_body_def input_error_def AddressBook_find_def add_record_def
      AddressBook_init_def AddressBook_str_def Record_str_def)

end
